theory Spec2Isabelle
  imports Main "HOL-Library.Log_Nat"
begin

section \<open>JavaScript numbers\<close>

text \<open>
  A JavaScript number is an IEEE 754 binary64 value. The finite ones are carried by
  their exact rational value; negative zero is identified with zero, which none of the
  operations of the service can tell apart (\<open>Number.isInteger\<close>, \<open><\<close>, \<open>>=\<close>, \<open>!\<close>).
  Every arithmetic result and every parsed literal goes through \<open>rnd\<close>, rounding to the
  nearest binary64 value, ties to even, overflowing to an infinity.
\<close>

datatype jsnum = NaN | Infinity | NegInfinity | Fin rat

definition pow2 :: "int \<Rightarrow> rat" where
  "pow2 e = (if 0 \<le> e then 2 ^ nat e else 1 / 2 ^ nat (- e))"

definition pow10 :: "int \<Rightarrow> rat" where
  "pow10 e = (if 0 \<le> e then 10 ^ nat e else 1 / 10 ^ nat (- e))"

definition roundHalfEven :: "rat \<Rightarrow> int" where
  "roundHalfEven x =
     (let f = \<lfloor>x\<rfloor>; d = x - of_int f
      in if d < 1 / 2 then f
         else if 1 / 2 < d then f + 1
         else if even f then f else f + 1)"

text \<open>\<open>floorLog2 a\<close> is the binary exponent of a positive rational: \<open>2^k \<le> a < 2^(k+1)\<close>.\<close>

definition floorLog2 :: "rat \<Rightarrow> int" where
  "floorLog2 a =
     (let (p, q) = quotient_of a; k = bitlen p - bitlen q
      in if pow2 k \<le> a then k else k - 1)"

text \<open>
  Round to binary64: 53 significant bits, smallest exponent \<open>-1074\<close> (subnormals), and
  anything that rounds to \<open>2^1024\<close> or more is an infinity.
\<close>

definition rnd :: "rat \<Rightarrow> jsnum" where
  "rnd x =
     (if x = 0 then Fin 0
      else let e = max (floorLog2 \<bar>x\<bar> - 52) (- 1074)
           in if 971 < e then (if 0 < x then Infinity else NegInfinity)
              else let m = roundHalfEven (\<bar>x\<bar> / pow2 e)
                   in if e = 971 \<and> m = 9007199254740992
                      then (if 0 < x then Infinity else NegInfinity)
                      else Fin ((if 0 < x then 1 else - 1) * of_int m * pow2 e))"

text \<open>\<open>Number.isInteger\<close>: finite and without fractional part.\<close>

fun isInteger :: "jsnum \<Rightarrow> bool" where
  "isInteger (Fin x) = (of_int \<lfloor>x\<rfloor> = x)"
| "isInteger _ = False"

text \<open>The relational operators \<open><\<close> and \<open>>=\<close> on numbers; any comparison with NaN is false.\<close>

fun jsLess :: "jsnum \<Rightarrow> jsnum \<Rightarrow> bool" where
  "jsLess NaN _ = False"
| "jsLess _ NaN = False"
| "jsLess (Fin x) (Fin y) = (x < y)"
| "jsLess NegInfinity b = (b \<noteq> NegInfinity)"
| "jsLess a Infinity = (a \<noteq> Infinity)"
| "jsLess _ _ = False"

fun jsGreaterEq :: "jsnum \<Rightarrow> jsnum \<Rightarrow> bool" where
  "jsGreaterEq NaN _ = False"
| "jsGreaterEq _ NaN = False"
| "jsGreaterEq a b = (\<not> jsLess a b)"

text \<open>Truthiness of a number: \<open>!n\<close> holds for zero and NaN.\<close>

fun truthyNum :: "jsnum \<Rightarrow> bool" where
  "truthyNum NaN = False"
| "truthyNum (Fin x) = (x \<noteq> 0)"
| "truthyNum _ = True"

fun jsNeg :: "jsnum \<Rightarrow> jsnum" where
  "jsNeg NaN = NaN"
| "jsNeg Infinity = NegInfinity"
| "jsNeg NegInfinity = Infinity"
| "jsNeg (Fin x) = Fin (- x)"

fun jsAdd :: "jsnum \<Rightarrow> jsnum \<Rightarrow> jsnum" where
  "jsAdd NaN _ = NaN"
| "jsAdd _ NaN = NaN"
| "jsAdd (Fin x) (Fin y) = rnd (x + y)"
| "jsAdd Infinity b = (if b = NegInfinity then NaN else Infinity)"
| "jsAdd NegInfinity b = (if b = Infinity then NaN else NegInfinity)"
| "jsAdd (Fin x) b = b"

definition jsSub :: "jsnum \<Rightarrow> jsnum \<Rightarrow> jsnum" where
  "jsSub a b = jsAdd a (jsNeg b)"

text \<open>The sign of an operand of a product or quotient; zero counts as positive zero.\<close>

fun negative :: "jsnum \<Rightarrow> bool" where
  "negative (Fin x) = (x < 0)"
| "negative NegInfinity = True"
| "negative _ = False"

definition signedInfinity :: "bool \<Rightarrow> jsnum" where
  "signedInfinity neg = (if neg then NegInfinity else Infinity)"

fun jsMul :: "jsnum \<Rightarrow> jsnum \<Rightarrow> jsnum" where
  "jsMul NaN _ = NaN"
| "jsMul _ NaN = NaN"
| "jsMul (Fin x) (Fin y) = rnd (x * y)"
| "jsMul a b =
     (if a = Fin 0 \<or> b = Fin 0 then NaN
      else signedInfinity (negative a \<noteq> negative b))"

fun jsDiv :: "jsnum \<Rightarrow> jsnum \<Rightarrow> jsnum" where
  "jsDiv NaN _ = NaN"
| "jsDiv _ NaN = NaN"
| "jsDiv (Fin x) (Fin y) =
     (if y = 0 then (if x = 0 then NaN else signedInfinity (x < 0))
      else rnd (x / y))"
| "jsDiv (Fin x) b = Fin 0"
| "jsDiv a (Fin y) = signedInfinity (negative a \<noteq> (y < 0))"
| "jsDiv a b = NaN"

section \<open>Strings, values and the coercions \<open>Number\<close> and \<open>String\<close>\<close>

text \<open>
  A string is a list of code units below 256. \<open>StringToNumber\<close> follows the
  StringNumericLiteral grammar of ECMA-262: surrounding white space is dropped, the empty
  string is 0, then a binary, octal or hexadecimal integer literal, or an optionally
  signed decimal literal with optional fraction and exponent, or a signed \<open>Infinity\<close>;
  anything else is NaN.
\<close>

definition isWhiteSpace :: "char \<Rightarrow> bool" where
  "isWhiteSpace c = ((of_char c :: int) \<in> {9, 10, 11, 12, 13, 32, 160})"

definition trim :: "string \<Rightarrow> string" where
  "trim s = rev (dropWhile isWhiteSpace (rev (dropWhile isWhiteSpace s)))"

definition isDigit :: "char \<Rightarrow> bool" where
  "isDigit c = (48 \<le> (of_char c :: int) \<and> (of_char c :: int) \<le> 57)"

definition isHexDigit :: "char \<Rightarrow> bool" where
  "isHexDigit c =
     (isDigit c \<or> (97 \<le> (of_char c :: int) \<and> (of_char c :: int) \<le> 102)
                \<or> (65 \<le> (of_char c :: int) \<and> (of_char c :: int) \<le> 70))"

definition digitValue :: "char \<Rightarrow> int" where
  "digitValue c =
     (if isDigit c then of_char c - 48
      else if 97 \<le> (of_char c :: int) then of_char c - 87
      else of_char c - 55)"

definition digitsValue :: "int \<Rightarrow> string \<Rightarrow> int" where
  "digitsValue base ds = foldl (\<lambda>a c. a * base + digitValue c) 0 ds"

definition nonDecimalIntegerLiteral :: "string \<Rightarrow> int option" where
  "nonDecimalIntegerLiteral t =
     (case t of
        z # x # ds \<Rightarrow>
          if z \<noteq> CHR ''0'' \<or> ds = [] then None
          else if (x = CHR ''x'' \<or> x = CHR ''X'') \<and> list_all isHexDigit ds
            then Some (digitsValue 16 ds)
          else if (x = CHR ''o'' \<or> x = CHR ''O'') \<and> list_all (\<lambda>c. isDigit c \<and> digitValue c < 8) ds
            then Some (digitsValue 8 ds)
          else if (x = CHR ''b'' \<or> x = CHR ''B'') \<and> list_all (\<lambda>c. isDigit c \<and> digitValue c < 2) ds
            then Some (digitsValue 2 ds)
          else None
      | _ \<Rightarrow> None)"

definition splitSign :: "string \<Rightarrow> bool \<times> string" where
  "splitSign t =
     (case t of
        c # r \<Rightarrow> if c = CHR ''-'' then (True, r) else if c = CHR ''+'' then (False, r) else (False, t)
      | [] \<Rightarrow> (False, t))"

definition exponentPart :: "string \<Rightarrow> int option" where
  "exponentPart r =
     (case r of
        [] \<Rightarrow> Some 0
      | c # r' \<Rightarrow>
          if c = CHR ''e'' \<or> c = CHR ''E'' then
            (let (neg, ds) = splitSign r'
             in if ds \<noteq> [] \<and> list_all isDigit ds
                then Some ((if neg then - 1 else 1) * digitsValue 10 ds)
                else None)
          else None)"

definition strUnsignedDecimalLiteral :: "string \<Rightarrow> rat option" where
  "strUnsignedDecimalLiteral u =
     (let ip = takeWhile isDigit u; r1 = dropWhile isDigit u;
          dot = (r1 \<noteq> [] \<and> hd r1 = CHR ''.'');
          fp = (if dot then takeWhile isDigit (tl r1) else []);
          r2 = (if dot then dropWhile isDigit (tl r1) else r1)
      in if ip = [] \<and> fp = [] then None
         else case exponentPart r2 of
                None \<Rightarrow> None
              | Some e \<Rightarrow> Some (of_int (digitsValue 10 (ip @ fp)) * pow10 (e - int (length fp))))"

definition StringToNumber :: "string \<Rightarrow> jsnum" where
  "StringToNumber s =
     (let t = trim s
      in if t = [] then Fin 0
         else case nonDecimalIntegerLiteral t of
                Some n \<Rightarrow> rnd (of_int n)
              | None \<Rightarrow>
                  (let (neg, u) = splitSign t
                   in if u = ''Infinity'' then signedInfinity neg
                      else case strUnsignedDecimalLiteral u of
                             None \<Rightarrow> NaN
                           | Some q \<Rightarrow> rnd (if neg then - q else q)))"

text \<open>
  The primitive values: \<open>undefined\<close> (absent), \<open>null\<close>, booleans, numbers and
  strings. A query parameter or a path parameter is a string or absent.
\<close>

datatype jsval = JUndefined | JNull | JBool bool | JNumber jsnum | JString string

fun Number :: "jsval \<Rightarrow> jsnum" where
  "Number JUndefined = NaN"
| "Number JNull = Fin 0"
| "Number (JBool b) = Fin (if b then 1 else 0)"
| "Number (JNumber n) = n"
| "Number (JString s) = StringToNumber s"

text \<open>An optional string parameter (\<open>x?: string\<close>) as a value: absent is \<open>undefined\<close>.\<close>

fun optional :: "string option \<Rightarrow> jsval" where
  "optional None = JUndefined"
| "optional (Some s) = JString s"

text \<open>\<open>String(x)\<close> for a string that may be absent.\<close>

fun String :: "string option \<Rightarrow> string" where
  "String None = ''undefined''"
| "String (Some s) = s"

section \<open>Values of a request body\<close>

text \<open>
  What a request ends with when it does not return: a \<open>BadRequestException\<close> carrying
  one message or a list of messages, a failure of the storage client passed on
  unhandled, or a \<open>TypeError\<close> raised by a coercion.
\<close>

datatype response = Message string | Messages "string list"

datatype exn = BadRequestException response | PrismaClientError string | TypeError string

text \<open>
  The body of a request is parsed JSON and reaches the handler unvalidated: a field can
  hold a primitive value (\<open>undefined\<close> when it is missing), an array or an object with
  its own keys.
\<close>

datatype bodyValue = Prim jsval | Arr "bodyValue list" | Obj "(string \<times> bodyValue) list"

text \<open>The decimal digits of a non-negative integer.\<close>

function decimalDigits :: "int \<Rightarrow> string" where
  "decimalDigits n =
     (if n < 10 then [char_of (48 + n)]
      else decimalDigits (n div 10) @ [char_of (48 + n mod 10)])"
  by pat_completeness auto
termination
  by (relation "measure nat") auto

declare decimalDigits.simps [simp del]

text \<open>\<open>floorLog10 a\<close> is the decimal exponent of a positive rational: \<open>10^k \<le> a < 10^(k+1)\<close>.\<close>

definition floorLog10 :: "rat \<Rightarrow> int" where
  "floorLog10 a =
     (let (p, q) = quotient_of a;
          k = int (length (decimalDigits p)) - int (length (decimalDigits q))
      in if pow10 k \<le> a then k else k - 1)"

text \<open>
  \<open>Number::toString\<close> of ECMA-262 prints the shortest digit string \<open>s\<close> of \<open>k\<close> digits
  with \<open>s * 10^(n - k)\<close> rounding back to the number, the closest one if several do.
  \<open>candidate x n k\<close> is that \<open>s\<close> for \<open>k\<close> digits, if there is one: it is the integer just
  below or just above \<open>x / 10^(n - k)\<close>.
\<close>

definition candidate :: "rat \<Rightarrow> int \<Rightarrow> int \<Rightarrow> int option" where
  "candidate x n k =
     (let scale = pow10 (n - k); lo = \<lfloor>x / scale\<rfloor>; hi = lo + 1;
          okLo = (rnd (of_int lo * scale) = Fin x);
          okHi = (rnd (of_int hi * scale) = Fin x)
      in if okLo \<and> (\<not> okHi \<or> x - of_int lo * scale \<le> of_int hi * scale - x) then Some lo
         else if okHi then Some hi
         else None)"

fun firstShortest :: "rat \<Rightarrow> int \<Rightarrow> int list \<Rightarrow> (int \<times> int) option" where
  "firstShortest x n [] = None"
| "firstShortest x n (k # ks) =
     (case candidate x n k of Some s \<Rightarrow> Some (s, k) | None \<Rightarrow> firstShortest x n ks)"

text \<open>The digits \<open>s\<close>, their number \<open>k\<close> and the position \<open>n\<close> of the decimal point; 17 digits always suffice.\<close>

definition shortestDigits :: "rat \<Rightarrow> int \<times> int \<times> int" where
  "shortestDigits x =
     (let n = floorLog10 x + 1
      in case firstShortest x n [1, 2, 3, 4, 5, 6, 7, 8, 9, 10, 11, 12, 13, 14, 15, 16, 17] of
           None \<Rightarrow> (\<lfloor>x / pow10 (n - 17)\<rfloor>, 17, n)
         | Some (s, k) \<Rightarrow> if s = 10 ^ nat k then (10 ^ nat (k - 1), k, n + 1) else (s, k, n))"

definition positiveToString :: "rat \<Rightarrow> string" where
  "positiveToString x =
     (let (s, k, n) = shortestDigits x; ds = decimalDigits s
      in if k \<le> n \<and> n \<le> 21 then ds @ replicate (nat (n - k)) (CHR ''0'')
         else if 0 < n \<and> n \<le> 21 then take (nat n) ds @ ''.'' @ drop (nat n) ds
         else if - 6 < n \<and> n \<le> 0 then ''0.'' @ replicate (nat (- n)) (CHR ''0'') @ ds
         else let e = n - 1; ex = (if e < 0 then ''-'' else ''+'') @ decimalDigits \<bar>e\<bar>
              in if k = 1 then ds @ ''e'' @ ex
                 else [hd ds] @ ''.'' @ tl ds @ ''e'' @ ex)"

fun NumberToString :: "jsnum \<Rightarrow> string" where
  "NumberToString NaN = ''NaN''"
| "NumberToString Infinity = ''Infinity''"
| "NumberToString NegInfinity = ''-Infinity''"
| "NumberToString (Fin x) =
     (if x = 0 then ''0''
      else if x < 0 then ''-'' @ positiveToString (- x)
      else positiveToString x)"

text \<open>
  \<open>String(v)\<close> for a value of any type. An array is the join of its elements with
  commas, \<open>null\<close> and \<open>undefined\<close> elements giving the empty string. A parsed JSON object
  inherits \<open>toString\<close> and gives \<open>[object Object]\<close>, unless it has a key \<open>toString\<close> of
  its own: that value is not callable, the inherited \<open>valueOf\<close> returns the object
  itself, and the conversion to a primitive throws a \<open>TypeError\<close>.
\<close>

fun String_value :: "bodyValue \<Rightarrow> exn + string"
  and joinElements :: "bodyValue list \<Rightarrow> exn + string" where
  "String_value (Prim JUndefined) = Inr ''undefined''"
| "String_value (Prim JNull) = Inr ''null''"
| "String_value (Prim (JBool b)) = Inr (if b then ''true'' else ''false'')"
| "String_value (Prim (JNumber n)) = Inr (NumberToString n)"
| "String_value (Prim (JString s)) = Inr s"
| "String_value (Arr xs) = joinElements xs"
| "String_value (Obj kvs) =
     (if ''toString'' \<in> set (map fst kvs)
      then Inl (TypeError ''Cannot convert object to primitive value'')
      else Inr ''[object Object]'')"
| "joinElements [] = Inr []"
| "joinElements (x # xs) =
     (case (if x = Prim JUndefined \<or> x = Prim JNull then Inr [] else String_value x) of
        Inl e \<Rightarrow> Inl e
      | Inr a \<Rightarrow>
          if xs = [] then Inr a
          else (case joinElements xs of Inl e \<Rightarrow> Inl e | Inr b \<Rightarrow> Inr (a @ '','' @ b)))"

text \<open>
  \<open>Number(v)\<close> for a value of any type: an array or an object is first converted to a
  primitive, which is its string.
\<close>

fun Number_value :: "bodyValue \<Rightarrow> exn + jsnum" where
  "Number_value (Prim p) = Inr (Number p)"
| "Number_value v = (case String_value v of Inl e \<Rightarrow> Inl e | Inr s \<Rightarrow> Inr (StringToNumber s))"

text \<open>
  Truthiness \<open>!!v\<close>: false for \<open>undefined\<close>, \<open>null\<close>, \<open>false\<close>, zero, NaN and the empty
  string, true for every other value, arrays and objects included.
\<close>

fun truthy :: "bodyValue \<Rightarrow> bool" where
  "truthy (Prim JUndefined) = False"
| "truthy (Prim JNull) = False"
| "truthy (Prim (JBool b)) = b"
| "truthy (Prim (JNumber n)) = truthyNum n"
| "truthy (Prim (JString s)) = (s \<noteq> [])"
| "truthy _ = True"

section \<open>Data of the service\<close>

text \<open>
  \<open>PokemonQuery\<close>: the nine optional query parameters of \<open>GET /pokemon\<close>, each a string
  or absent.
\<close>

record PokemonQuery =
  q_orderBy :: "string option"
  q_orderDir :: "string option"
  q_name :: "string option"
  q_heightGte :: "string option"
  q_heightLeq :: "string option"
  q_weightGte :: "string option"
  q_weightLeq :: "string option"
  q_page :: "string option"
  q_pageSize :: "string option"

datatype SortOrder = Asc | Desc

datatype OrderKey = KeyId | KeyName | KeyHeight | KeyWeight | KeyImage

text \<open>An order object with one key, such as \<open>{ name: 'asc' }\<close>, is the pair of key and direction.\<close>

type_synonym PokemonOrderBy = "OrderKey \<times> SortOrder"

record NumberFilter =
  gte :: "jsnum option"
  lte :: "jsnum option"

record PokemonWhereInput =
  w_name_contains :: "string option"
  w_height :: NumberFilter
  w_weight :: NumberFilter

record PokemonParams =
  p_where :: "PokemonWhereInput option"
  p_orderBy :: "PokemonOrderBy option"
  p_skip :: "jsnum option"
  p_take :: "jsnum option"

text \<open>
  \<open>PokemonInput\<close>: the body of a create or update request as it arrives. The declared
  types (\<open>name: string\<close>, \<open>height: number\<close>, ...) are erased at run time and nothing checks
  the body before the handler, so each field holds any value.
\<close>

record PokemonInput =
  d_name :: bodyValue
  d_height :: bodyValue
  d_weight :: bodyValue
  d_image :: bodyValue

record PokemonCreateInput =
  c_name :: string
  c_height :: jsnum
  c_weight :: jsnum
  c_image :: string

record Pokemon =
  pk_id :: int
  pk_name :: string
  pk_height :: int
  pk_weight :: int
  pk_image :: string

record ListResult =
  r_pokemons :: "Pokemon list"
  r_page :: jsnum

text \<open>
  The storage client injected into the service (\<open>this.prisma.pokemon\<close>), over a state
  \<open>'s\<close> of the database. The two reads leave the state as it is; each operation may fail
  with the client's own error.
\<close>

record 's PrismaService =
  pokemon_findMany :: "PokemonParams \<Rightarrow> 's \<Rightarrow> string + Pokemon list"
  pokemon_findUnique :: "jsnum \<Rightarrow> 's \<Rightarrow> string + Pokemon option"
  pokemon_create :: "PokemonCreateInput \<Rightarrow> 's \<Rightarrow> (string + Pokemon) \<times> 's"
  pokemon_update :: "jsnum \<Rightarrow> PokemonCreateInput \<Rightarrow> 's \<Rightarrow> (string + Pokemon) \<times> 's"
  pokemon_delete :: "jsnum \<Rightarrow> 's \<Rightarrow> (string + Pokemon) \<times> 's"

section \<open>PokemonService\<close>

text \<open>An operand of \<open>/\<close> that may be \<open>undefined\<close> (\<open>skip?: number\<close>): \<open>undefined\<close> is NaN.\<close>

fun operand :: "jsnum option \<Rightarrow> jsnum" where
  "operand None = NaN"
| "operand (Some n) = n"

definition getPokemons :: "'s PrismaService \<Rightarrow> PokemonParams \<Rightarrow> 's \<Rightarrow> exn + ListResult" where
  "getPokemons prisma params s =
     (case pokemon_findMany prisma params s of
        Inl e \<Rightarrow> Inl (PrismaClientError e)
      | Inr pokemons \<Rightarrow>
          Inr \<lparr>r_pokemons = pokemons,
               r_page = jsAdd (jsDiv (operand (p_skip params)) (operand (p_take params))) (Fin 1)\<rparr>)"

definition resolveNumber :: "string option \<Rightarrow> jsnum option" where
  "resolveNumber number =
     (let parsedNumber = Number (optional number)
      in if isInteger parsedNumber then Some parsedNumber else None)"

definition parseOrderDir :: "string option \<Rightarrow> SortOrder" where
  "parseOrderDir orderDir = (if String orderDir = ''desc'' then Desc else Asc)"

definition resolveOrderBy :: "PokemonQuery \<Rightarrow> PokemonOrderBy option" where
  "resolveOrderBy pokemonQuery =
     (let orderBy = q_orderBy pokemonQuery; orderDir = q_orderDir pokemonQuery;
          orderDirValue = parseOrderDir orderDir
      in if orderBy = Some ''name'' then Some (KeyName, orderDirValue)
         else if orderBy = Some ''height'' then Some (KeyName, orderDirValue)
         else if orderBy = Some ''weight'' then Some (KeyName, orderDirValue)
         else None)"

definition resolveWhere :: "PokemonQuery \<Rightarrow> PokemonWhereInput" where
  "resolveWhere pokemonQuery =
     \<lparr>w_name_contains = q_name pokemonQuery,
      w_height = \<lparr>gte = resolveNumber (q_heightGte pokemonQuery),
                  lte = resolveNumber (q_heightLeq pokemonQuery)\<rparr>,
      w_weight = \<lparr>gte = resolveNumber (q_weightGte pokemonQuery),
                  lte = resolveNumber (q_weightLeq pokemonQuery)\<rparr>\<rparr>"

definition resolvePageSize :: "string option \<Rightarrow> exn + jsnum" where
  "resolvePageSize pageSize =
     (if pageSize = None \<or> pageSize = Some ''10'' then Inr (Fin 10)
      else if pageSize = Some ''20'' then Inr (Fin 20)
      else if pageSize = Some ''50'' then Inr (Fin 50)
      else Inl (BadRequestException (Message ''Invalid page size. Valid sizes: 10, 20, 50'')))"

text \<open>
  The local \<open>validPage\<close> of \<open>resolvePage\<close>:
  \<open>!resolvedPage || resolvedPage < 1 ? 1 : resolvedPage\<close>.
\<close>

definition validPage :: "string option \<Rightarrow> jsnum" where
  "validPage page =
     (case resolveNumber page of
        None \<Rightarrow> Fin 1
      | Some resolvedPage \<Rightarrow>
          if \<not> truthyNum resolvedPage \<or> jsLess resolvedPage (Fin 1) then Fin 1
          else resolvedPage)"

definition resolvePage :: "PokemonQuery \<Rightarrow> exn + jsnum \<times> jsnum" where
  "resolvePage pokemonQuery =
     (case resolvePageSize (q_pageSize pokemonQuery) of
        Inl e \<Rightarrow> Inl e
      | Inr validPageSize \<Rightarrow>
          Inr (jsMul validPageSize (jsSub (validPage (q_page pokemonQuery)) (Fin 1)),
               validPageSize))"

definition constructParams :: "PokemonQuery \<Rightarrow> exn + PokemonParams" where
  "constructParams pokemonQuery =
     (let whereInput = resolveWhere pokemonQuery; orderBy = resolveOrderBy pokemonQuery
      in case resolvePage pokemonQuery of
           Inl e \<Rightarrow> Inl e
         | Inr (skipValue, takeValue) \<Rightarrow>
             Inr \<lparr>p_where = Some whereInput, p_orderBy = orderBy,
                  p_skip = Some skipValue, p_take = Some takeValue\<rparr>)"

text \<open>A call of the storage client that changes the database: its failure is not caught.\<close>

definition unhandled :: "(string + 'a) \<times> 's \<Rightarrow> (exn + 'a) \<times> 's" where
  "unhandled r = (case r of (Inl e, s) \<Rightarrow> (Inl (PrismaClientError e), s) | (Inr x, s) \<Rightarrow> (Inr x, s))"

definition createPokemon :: "'s PrismaService \<Rightarrow> PokemonCreateInput \<Rightarrow> 's \<Rightarrow> (exn + Pokemon) \<times> 's" where
  "createPokemon prisma data s = unhandled (pokemon_create prisma data s)"

definition updatePokemon ::
  "'s PrismaService \<Rightarrow> jsnum \<Rightarrow> PokemonCreateInput \<Rightarrow> 's \<Rightarrow> (exn + Pokemon) \<times> 's" where
  "updatePokemon prisma whereId data s = unhandled (pokemon_update prisma whereId data s)"

definition deletePokemon :: "'s PrismaService \<Rightarrow> jsnum \<Rightarrow> 's \<Rightarrow> (exn + Pokemon) \<times> 's" where
  "deletePokemon prisma whereId s = unhandled (pokemon_delete prisma whereId s)"

definition getPokemon :: "'s PrismaService \<Rightarrow> jsnum \<Rightarrow> 's \<Rightarrow> exn + Pokemon option" where
  "getPokemon prisma id' s =
     (case pokemon_findUnique prisma id' s of
        Inl e \<Rightarrow> Inl (PrismaClientError e)
      | Inr r \<Rightarrow> Inr r)"

text \<open>\<open>validateId\<close> returns \<open>null\<close> (here \<open>None\<close>) or the error string.\<close>

definition validateId :: "'s PrismaService \<Rightarrow> jsnum \<Rightarrow> 's \<Rightarrow> exn + string option" where
  "validateId prisma id' s =
     (if isInteger id' \<and> jsGreaterEq id' (Fin 0) then
        (case getPokemon prisma id' s of
           Inl e \<Rightarrow> Inl e
         | Inr r \<Rightarrow> if r \<noteq> None then Inr None else Inr (Some ''Invalid id''))
      else Inr (Some ''Invalid id''))"

definition resolveData :: "PokemonInput \<Rightarrow> exn + PokemonCreateInput" where
  "resolveData data =
     (case String_value (d_name data) of
        Inl e \<Rightarrow> Inl e
      | Inr nameValue \<Rightarrow>
          (case Number_value (d_height data) of
             Inl e \<Rightarrow> Inl e
           | Inr heightValue \<Rightarrow>
               (case Number_value (d_weight data) of
                  Inl e \<Rightarrow> Inl e
                | Inr weightValue \<Rightarrow>
                    (case String_value (d_image data) of
                       Inl e \<Rightarrow> Inl e
                     | Inr imageValue \<Rightarrow>
                         Inr \<lparr>c_name = nameValue, c_height = heightValue,
                              c_weight = weightValue,
                              c_image = imageValue\<rparr>))))"

text \<open>
  \<open>validateData\<close> returns \<open>null\<close> (here \<open>None\<close>) or the list of messages; a coercion of
  the height or the weight that throws ends it before any check.
\<close>

definition validateData :: "PokemonInput \<Rightarrow> exn + string list option" where
  "validateData data =
     (case Number_value (d_height data) of
        Inl e \<Rightarrow> Inl e
      | Inr parsedHeight \<Rightarrow>
          (case Number_value (d_weight data) of
             Inl e \<Rightarrow> Inl e
           | Inr parsedWeight \<Rightarrow>
               Inr (let errors = [];
                        errors = (if \<not> truthy (d_name data) then errors @ [''Invalid name'']
                                  else errors);
                        errors = (if \<not> isInteger parsedHeight \<or> jsLess parsedHeight (Fin 0)
                                  then errors @ [''Invalid height''] else errors);
                        errors = (if \<not> isInteger parsedWeight \<or> jsLess parsedWeight (Fin 0)
                                  then errors @ [''Invalid weight''] else errors);
                        errors = (if \<not> truthy (d_image data)
                                  then errors @ [''Invalid image url''] else errors)
                    in if length errors > 0 then Some errors else None)))"

section \<open>AppController\<close>

definition AppController_getPokemons :: "'s PrismaService \<Rightarrow> PokemonQuery \<Rightarrow> 's \<Rightarrow> exn + ListResult" where
  "AppController_getPokemons prisma query s =
     (case constructParams query of
        Inl e \<Rightarrow> Inl e
      | Inr params \<Rightarrow> getPokemons prisma params s)"

definition AppController_createPokemon ::
  "'s PrismaService \<Rightarrow> PokemonInput \<Rightarrow> 's \<Rightarrow> (exn + Pokemon) \<times> 's" where
  "AppController_createPokemon prisma pokemonData s =
     (case validateData pokemonData of
        Inl e \<Rightarrow> (Inl e, s)
      | Inr (Some validationResult) \<Rightarrow>
          (Inl (BadRequestException (Messages validationResult)), s)
      | Inr None \<Rightarrow>
          (case resolveData pokemonData of
             Inl e \<Rightarrow> (Inl e, s)
           | Inr input \<Rightarrow> createPokemon prisma input s))"

definition AppController_publishPokemon ::
  "'s PrismaService \<Rightarrow> string \<Rightarrow> PokemonInput \<Rightarrow> 's \<Rightarrow> (exn + Pokemon) \<times> 's" where
  "AppController_publishPokemon prisma id' pokemonData s =
     (case validateData pokemonData of
        Inl e \<Rightarrow> (Inl e, s)
      | Inr (Some validationResult) \<Rightarrow>
          (Inl (BadRequestException (Messages validationResult)), s)
      | Inr None \<Rightarrow>
          (case validateId prisma (Number (JString id')) s of
             Inl e \<Rightarrow> (Inl e, s)
           | Inr (Some idValidationResult) \<Rightarrow>
               (Inl (BadRequestException (Message idValidationResult)), s)
           | Inr None \<Rightarrow>
               (case resolveData pokemonData of
                  Inl e \<Rightarrow> (Inl e, s)
                | Inr input \<Rightarrow> updatePokemon prisma (Number (JString id')) input s)))"

definition AppController_deletePokemon ::
  "'s PrismaService \<Rightarrow> string \<Rightarrow> 's \<Rightarrow> (exn + Pokemon) \<times> 's" where
  "AppController_deletePokemon prisma id' s =
     (case validateId prisma (Number (JString id')) s of
        Inl e \<Rightarrow> (Inl e, s)
      | Inr (Some validationResult) \<Rightarrow> (Inl (BadRequestException (Message validationResult)), s)
      | Inr None \<Rightarrow> deletePokemon prisma (Number (JString id')) s)"

section \<open>A reference storage client\<close>

text \<open>
  Modelled from the spec: the storage client (\<open>prisma.service\<close> and the database client
  it wraps) is not among the sources. The spec describes "a database client exposing
  find-many (with filter/sort/skip/take), find-unique-by-id, create, update, delete
  operations over this table", with inclusive range bounds, a substring match on the
  name, integer columns and an auto-assigned unique id. The service above takes any
  client as a parameter; this one is an in-memory table used to run it.
\<close>

record Store =
  rows :: "Pokemon list"
  nextId :: int

text \<open>Modelled from the spec: substring match on the name ("name substring filter").\<close>

fun isInfix :: "string \<Rightarrow> string \<Rightarrow> bool" where
  "isInfix t [] = (t = [])"
| "isInfix t (c # cs) = (take (length t) (c # cs) = t \<or> isInfix t cs)"

text \<open>Modelled from the spec: "inclusive lower/upper numeric bounds, each independently optional".\<close>

definition inRange :: "NumberFilter \<Rightarrow> int \<Rightarrow> bool" where
  "inRange f v =
     ((case gte f of None \<Rightarrow> True | Some b \<Rightarrow> jsGreaterEq (Fin (of_int v)) b) \<and>
      (case lte f of None \<Rightarrow> True | Some b \<Rightarrow> jsGreaterEq b (Fin (of_int v))))"

text \<open>Modelled from the spec: the structured filter of a list query applied to one record.\<close>

definition matches :: "PokemonWhereInput \<Rightarrow> Pokemon \<Rightarrow> bool" where
  "matches w p =
     ((case w_name_contains w of None \<Rightarrow> True | Some t \<Rightarrow> isInfix t (pk_name p)) \<and>
      inRange (w_height w) (pk_height p) \<and> inRange (w_weight w) (pk_weight p))"

text \<open>Modelled from the spec: the order of two strings, code unit by code unit.\<close>

fun stringLe :: "string \<Rightarrow> string \<Rightarrow> bool" where
  "stringLe [] _ = True"
| "stringLe (c # cs) [] = False"
| "stringLe (c # cs) (d # ds) =
     ((of_char c :: int) < of_char d \<or> (c = d \<and> stringLe cs ds))"

text \<open>Modelled from the spec: the order of two records under a sort field.\<close>

fun rowLe :: "OrderKey \<Rightarrow> Pokemon \<Rightarrow> Pokemon \<Rightarrow> bool" where
  "rowLe KeyId a b = (pk_id a \<le> pk_id b)"
| "rowLe KeyName a b = stringLe (pk_name a) (pk_name b)"
| "rowLe KeyHeight a b = (pk_height a \<le> pk_height b)"
| "rowLe KeyWeight a b = (pk_weight a \<le> pk_weight b)"
| "rowLe KeyImage a b = stringLe (pk_image a) (pk_image b)"

text \<open>Modelled from the spec: insertion into a list ordered by \<open>le\<close>.\<close>

fun insertRow :: "(Pokemon \<Rightarrow> Pokemon \<Rightarrow> bool) \<Rightarrow> Pokemon \<Rightarrow> Pokemon list \<Rightarrow> Pokemon list" where
  "insertRow le p [] = [p]"
| "insertRow le p (r # rs) = (if le p r then p # r # rs else r # insertRow le p rs)"

text \<open>Modelled from the spec: "a structured sort (field + direction, or none)".\<close>

fun orderRows :: "PokemonOrderBy option \<Rightarrow> Pokemon list \<Rightarrow> Pokemon list" where
  "orderRows None rs = rs"
| "orderRows (Some (k, Asc)) rs = foldr (insertRow (rowLe k)) rs []"
| "orderRows (Some (k, Desc)) rs = foldr (insertRow (\<lambda>a b. rowLe k b a)) rs []"

text \<open>Modelled from the spec: a skip or take count, a non-negative integer.\<close>

fun asCount :: "jsnum \<Rightarrow> int option" where
  "asCount (Fin x) = (if of_int \<lfloor>x\<rfloor> = x \<and> 0 \<le> x then Some \<lfloor>x\<rfloor> else None)"
| "asCount _ = None"

text \<open>Modelled from the spec: leaving out the first \<open>k\<close> records, and keeping at most \<open>k\<close>.\<close>

definition skipRows :: "int \<Rightarrow> Pokemon list \<Rightarrow> Pokemon list" where
  "skipRows k rs = (if int (length rs) \<le> k then [] else drop (nat k) rs)"

definition takeRows :: "int \<Rightarrow> Pokemon list \<Rightarrow> Pokemon list" where
  "takeRows k rs = (if int (length rs) \<le> k then rs else take (nat k) rs)"

text \<open>Modelled from the spec: a value of an integer column (\<open>INTEGER\<close>, 32 bits).\<close>

fun asInteger :: "jsnum \<Rightarrow> int option" where
  "asInteger (Fin x) =
     (if of_int \<lfloor>x\<rfloor> = x \<and> - 2147483648 \<le> x \<and> x \<le> 2147483647 then Some \<lfloor>x\<rfloor> else None)"
| "asInteger _ = None"

text \<open>Modelled from the spec: find-many with filter, sort, skip and take.\<close>

definition memFindMany :: "PokemonParams \<Rightarrow> Store \<Rightarrow> string + Pokemon list" where
  "memFindMany params s =
     (let found = filter (case p_where params of None \<Rightarrow> (\<lambda>p. True) | Some w \<Rightarrow> matches w) (rows s);
          sorted = orderRows (p_orderBy params) found
      in case (case p_skip params of None \<Rightarrow> Some 0 | Some n \<Rightarrow> asCount n) of
           None \<Rightarrow> Inl ''Invalid value for argument skip''
         | Some sk \<Rightarrow>
             (case p_take params of
                None \<Rightarrow> Inr (skipRows sk sorted)
              | Some n \<Rightarrow>
                  (case asCount n of
                     None \<Rightarrow> Inl ''Invalid value for argument take''
                   | Some tk \<Rightarrow> Inr (takeRows tk (skipRows sk sorted)))))"

text \<open>Modelled from the spec: find-unique-by-id.\<close>

definition memFindUnique :: "jsnum \<Rightarrow> Store \<Rightarrow> string + Pokemon option" where
  "memFindUnique n s = Inr (find (\<lambda>p. Fin (of_int (pk_id p)) = n) (rows s))"

text \<open>Modelled from the spec: create, the id "auto-assigned, unique".\<close>

definition memCreate :: "PokemonCreateInput \<Rightarrow> Store \<Rightarrow> (string + Pokemon) \<times> Store" where
  "memCreate d s =
     (case (asInteger (c_height d), asInteger (c_weight d)) of
        (Some h, Some w) \<Rightarrow>
          (let p = \<lparr>pk_id = nextId s, pk_name = c_name d, pk_height = h, pk_weight = w,
                    pk_image = c_image d\<rparr>
           in (Inr p, \<lparr>rows = rows s @ [p], nextId = nextId s + 1\<rparr>))
      | _ \<Rightarrow> (Inl ''Value out of range for the type integer'', s))"

text \<open>Modelled from the spec: update, "all fields replaceable, id immutable".\<close>

definition memUpdate :: "jsnum \<Rightarrow> PokemonCreateInput \<Rightarrow> Store \<Rightarrow> (string + Pokemon) \<times> Store" where
  "memUpdate n d s =
     (case find (\<lambda>p. Fin (of_int (pk_id p)) = n) (rows s) of
        None \<Rightarrow> (Inl ''Record to update not found'', s)
      | Some old \<Rightarrow>
          (case (asInteger (c_height d), asInteger (c_weight d)) of
             (Some h, Some w) \<Rightarrow>
               (let p = \<lparr>pk_id = pk_id old, pk_name = c_name d, pk_height = h, pk_weight = w,
                         pk_image = c_image d\<rparr>
                in (Inr p, \<lparr>rows = map (\<lambda>r. if pk_id r = pk_id old then p else r) (rows s),
                            nextId = nextId s\<rparr>))
           | _ \<Rightarrow> (Inl ''Value out of range for the type integer'', s)))"

text \<open>Modelled from the spec: delete, which "removes the Record and returns the removed value".\<close>

definition memDelete :: "jsnum \<Rightarrow> Store \<Rightarrow> (string + Pokemon) \<times> Store" where
  "memDelete n s =
     (case find (\<lambda>p. Fin (of_int (pk_id p)) = n) (rows s) of
        None \<Rightarrow> (Inl ''Record to delete does not exist'', s)
      | Some old \<Rightarrow>
          (Inr old, \<lparr>rows = filter (\<lambda>r. pk_id r \<noteq> pk_id old) (rows s), nextId = nextId s\<rparr>))"

text \<open>Modelled from the spec: the in-memory client.\<close>

definition memPrisma :: "Store PrismaService" where
  "memPrisma =
     \<lparr>pokemon_findMany = memFindMany, pokemon_findUnique = memFindUnique,
      pokemon_create = memCreate, pokemon_update = memUpdate, pokemon_delete = memDelete\<rparr>"

text \<open>Modelled from the spec: a client whose every call fails, as when the database is unreachable.\<close>

definition downPrisma :: "Store PrismaService" where
  "downPrisma =
     \<lparr>pokemon_findMany = (\<lambda>params s. Inl ''Connection refused''),
      pokemon_findUnique = (\<lambda>n s. Inl ''Connection refused''),
      pokemon_create = (\<lambda>d s. (Inl ''Connection refused'', s)),
      pokemon_update = (\<lambda>n d s. (Inl ''Connection refused'', s)),
      pokemon_delete = (\<lambda>n s. (Inl ''Connection refused'', s))\<rparr>"

section \<open>Inputs used in examples\<close>

text \<open>The query of \<open>GET /pokemon\<close> with no parameter at all.\<close>

definition noQuery :: PokemonQuery where
  "noQuery =
     \<lparr>q_orderBy = None, q_orderDir = None, q_name = None, q_heightGte = None,
      q_heightLeq = None, q_weightGte = None, q_weightLeq = None, q_page = None,
      q_pageSize = None\<rparr>"

definition pikachu :: Pokemon where
  "pikachu = \<lparr>pk_id = 1, pk_name = ''Pikachu'', pk_height = 4, pk_weight = 60,
               pk_image = ''https://img.example/25.png''\<rparr>"

definition store1 :: Store where
  "store1 = \<lparr>rows = [pikachu], nextId = 2\<rparr>"

definition goodData :: PokemonInput where
  "goodData = \<lparr>d_name = Prim (JString ''Eevee''), d_height = Prim (JNumber (Fin 3)),
               d_weight = Prim (JString ''65''),
               d_image = Prim (JString ''https://img.example/133.png'')\<rparr>"

definition badData :: PokemonInput where
  "badData = \<lparr>d_name = Prim (JString ''''), d_height = Prim (JString ''1.5''),
              d_weight = Prim (JNumber (Fin (- 2))), d_image = Prim JUndefined\<rparr>"

text \<open>The body \<open>{"name": [], "height": 3, "weight": "65", "image": {}}\<close>.\<close>

definition emptyArrayName :: PokemonInput where
  "emptyArrayName = \<lparr>d_name = Arr [], d_height = Prim (JNumber (Fin 3)),
                     d_weight = Prim (JString ''65''), d_image = Obj []\<rparr>"

text \<open>The body \<open>{"name": "Eevee", "height": {"toString": 1}, "weight": 65, "image": "x"}\<close>.\<close>

definition throwingHeight :: PokemonInput where
  "throwingHeight = \<lparr>d_name = Prim (JString ''Eevee''),
                      d_height = Obj [(''toString'', Prim (JNumber (Fin 1)))],
                      d_weight = Prim (JNumber (Fin 65)), d_image = Prim (JString ''x'')\<rparr>"

section \<open>Exactness of the rounding on small integers\<close>

lemma roundHalfEven_of_int: "roundHalfEven (of_int z) = z"
  by (simp add: roundHalfEven_def)

lemma floorLog2_of_int_le:
  assumes "0 < n" "n < 2 ^ 53"
  shows "floorLog2 (of_int n) \<le> 52"
proof -
  have "bitlen n \<le> 53"
    using assms by (simp add: bitlen_le_iff_power)
  moreover have "bitlen 1 = 1"
    by (simp add: bitlen_alt_def)
  ultimately show ?thesis
    by (simp add: floorLog2_def Let_def)
qed

lemma pow2_nonpos: "e \<le> 0 \<Longrightarrow> pow2 e = 1 / 2 ^ nat (- e)"
  by (cases "e = 0") (simp_all add: pow2_def)

lemma rnd_pos_int:
  assumes "0 < n" "n < 2 ^ 53"
  shows "rnd (of_int n) = Fin (of_int n)"
proof -
  define e where "e = max (floorLog2 \<bar>of_int n\<bar> - 52) (- 1074)"
  have abs: "\<bar>of_int n :: rat\<bar> = of_int n"
    using assms by simp
  have "e \<le> 0"
    using floorLog2_of_int_le[OF assms] by (simp add: e_def abs)
  then have p: "pow2 e = 1 / 2 ^ nat (- e)"
    by (rule pow2_nonpos)
  have "(of_int n :: rat) / pow2 e = of_int (n * 2 ^ nat (- e))"
    by (simp add: p)
  then have m: "roundHalfEven (\<bar>of_int n\<bar> / pow2 e) = n * 2 ^ nat (- e)"
    by (simp only: abs roundHalfEven_of_int)
  have v: "of_int (n * 2 ^ nat (- e)) * pow2 e = (of_int n :: rat)"
    by (simp add: p)
  have ne: "(of_int n :: rat) \<noteq> 0" "0 < (of_int n :: rat)"
    using assms by simp_all
  have "\<not> 971 < e" "e \<noteq> 971"
    using \<open>e \<le> 0\<close> by simp_all
  then show ?thesis
    unfolding rnd_def Let_def e_def[symmetric]
    using ne m v by simp
qed

lemma rnd_zero: "rnd 0 = Fin 0"
  by (simp add: rnd_def)

lemma rnd_int_exact:
  assumes "0 \<le> n" "n < 2 ^ 53"
  shows "rnd (of_int n) = Fin (of_int n)"
  using assms rnd_pos_int[of n] rnd_zero by (cases "n = 0") simp_all

lemma rnd_one: "rnd 1 = Fin 1"
  using rnd_int_exact[of 1] by simp

section \<open>Integers among the numbers\<close>

lemma isInteger_iff: "isInteger n \<longleftrightarrow> (\<exists>k::int. n = Fin (of_int k))"
proof (cases n)
  case (Fin x)
  show ?thesis
  proof
    assume "isInteger n"
    then have "of_int \<lfloor>x\<rfloor> = x" unfolding Fin by (simp only: isInteger.simps)
    then have "n = Fin (of_int \<lfloor>x\<rfloor>)" unfolding Fin by (simp only:)
    then show "\<exists>k::int. n = Fin (of_int k)" ..
  next
    assume "\<exists>k::int. n = Fin (of_int k)"
    then obtain k :: int where "n = Fin (of_int k)" ..
    then show "isInteger n" by simp
  qed
qed simp_all

lemma nonNegativeInteger_iff:
  "\<not> (\<not> isInteger n \<or> jsLess n (Fin 0)) \<longleftrightarrow> (\<exists>k::int. 0 \<le> k \<and> n = Fin (of_int k))"
  by (auto simp: isInteger_iff)

lemma StringToNumber_empty: "StringToNumber [] = Fin 0"
  by (simp add: StringToNumber_def trim_def)

section \<open>Facts about the translation of a query\<close>

lemma resolveNumber_Some:
  "Number (optional p) = Fin (of_int k) \<Longrightarrow> resolveNumber p = Some (Fin (of_int k))"
  by (simp add: resolveNumber_def)

lemma resolveNumber_None:
  "\<nexists>k::int. Number (optional p) = Fin (of_int k) \<Longrightarrow> resolveNumber p = None"
  by (simp add: resolveNumber_def isInteger_iff)

lemma constructParams_eq:
  "constructParams q =
     (case resolvePageSize (q_pageSize q) of
        Inl e \<Rightarrow> Inl e
      | Inr ps \<Rightarrow>
          Inr \<lparr>p_where = Some (resolveWhere q), p_orderBy = resolveOrderBy q,
               p_skip = Some (jsMul ps (jsSub (validPage (q_page q)) (Fin 1))),
               p_take = Some ps\<rparr>)"
  by (simp add: constructParams_def resolvePage_def Let_def split: sum.splits)

lemma Number_abc: "StringToNumber ''abc'' = NaN"
  by code_simp

lemma Number_5_5: "StringToNumber ''5.5'' = Fin (11 / 2)"
  by code_simp

lemma Number_12: "StringToNumber ''12'' = Fin 12"
  by code_simp

section \<open>Facts about validation\<close>

lemma validateData_eq:
  "validateData d =
     (case Number_value (d_height d) of
        Inl e \<Rightarrow> Inl e
      | Inr h \<Rightarrow>
          (case Number_value (d_weight d) of
             Inl e \<Rightarrow> Inl e
           | Inr w \<Rightarrow>
               Inr (let es = (if truthy (d_name d) then [] else [''Invalid name'']) @
                             (if \<not> isInteger h \<or> jsLess h (Fin 0) then [''Invalid height'']
                              else []) @
                             (if \<not> isInteger w \<or> jsLess w (Fin 0) then [''Invalid weight'']
                              else []) @
                             (if truthy (d_image d) then [] else [''Invalid image url''])
                    in if es = [] then None else Some es)))"
  by (simp add: validateData_def Let_def split: sum.splits)

lemma truthyNum_iff: "truthyNum n \<longleftrightarrow> n \<noteq> Fin 0 \<and> n \<noteq> NaN"
  by (cases n) simp_all

lemma truthy_iff:
  "truthy v \<longleftrightarrow>
     v \<notin> {Prim JUndefined, Prim JNull, Prim (JBool False), Prim (JNumber (Fin 0)),
          Prim (JNumber NaN), Prim (JString [])}"
proof (cases v)
  case (Prim p)
  then show ?thesis
    by (cases p) (simp_all add: truthyNum_iff)
qed simp_all

lemma nonNegative_coercion_iff:
  "Number_value v = Inr n \<Longrightarrow>
     (\<not> isInteger n \<or> jsLess n (Fin 0)) \<longleftrightarrow>
     \<not> (\<exists>k::int. 0 \<le> k \<and> Number_value v = Inr (Fin (of_int k)))"
  using nonNegativeInteger_iff [of n] by auto

text \<open>The list that the four checks of \<open>validateData\<close> build, from the four outcomes.\<close>

lemma messages_collected:
  fixes n h w i :: bool
  defines "es \<equiv> (if n then [] else [''Invalid name'']) @ (if h then [] else [''Invalid height'']) @
                (if w then [] else [''Invalid weight'']) @ (if i then [] else [''Invalid image url''])"
  shows "es = [] \<longleftrightarrow> n \<and> h \<and> w \<and> i"
    and "distinct es"
    and "set es \<subseteq>
           {''Invalid name'', ''Invalid height'', ''Invalid weight'', ''Invalid image url''}"
    and "''Invalid name'' \<in> set es \<longleftrightarrow> \<not> n"
    and "''Invalid height'' \<in> set es \<longleftrightarrow> \<not> h"
    and "''Invalid weight'' \<in> set es \<longleftrightarrow> \<not> w"
    and "''Invalid image url'' \<in> set es \<longleftrightarrow> \<not> i"
  unfolding es_def
  by (cases n; cases h; cases w; cases i; simp)+

section \<open>Evaluations on the example inputs\<close>

lemma Number_7: "StringToNumber ''7'' = Fin 7"
  by code_simp

lemma Number_minus_1: "StringToNumber ''-1'' = Fin (- 1)"
  by code_simp

lemma Number_1: "StringToNumber ''1'' = Fin 1"
  by code_simp


lemma validateData_goodData: "validateData goodData = Inr None"
  by code_simp


lemma findUnique_1: "pokemon_findUnique memPrisma (Fin 1) store1 = Inr (Some pikachu)"
  by code_simp

lemma findUnique_7: "pokemon_findUnique memPrisma (Fin 7) store1 = Inr None"
  by code_simp

section \<open>Facts about pagination\<close>

lemma resolvePageSize_cases:
  "resolvePageSize p = Inr ps \<Longrightarrow> ps = Fin 10 \<or> ps = Fin 20 \<or> ps = Fin 50"
  by (auto simp: resolvePageSize_def split: if_splits)

lemma first_page_skip:
  assumes "ps = Fin 10 \<or> ps = Fin 20 \<or> ps = Fin 50"
  shows "jsMul ps (jsSub (Fin 1) (Fin 1)) = Fin 0"
    and "jsAdd (jsDiv (Fin 0) ps) (Fin 1) = Fin 1"
  using assms by (auto simp: jsSub_def rnd_zero rnd_one)

lemma Number_2_5: "StringToNumber ''2.5'' = Fin (5 / 2)"
  by code_simp

lemma validPage_spec:
  "validPage p =
     (if \<exists>k::int. 1 \<le> k \<and> Number (optional p) = Fin (of_int k) then Number (optional p)
      else Fin 1)"
proof (cases "isInteger (Number (optional p))")
  case True
  then obtain k :: int where k: "Number (optional p) = Fin (of_int k)"
    unfolding isInteger_iff ..
  then have r: "resolveNumber p = Some (Fin (of_int k))"
    by (simp add: resolveNumber_def)
  show ?thesis
  proof (cases "1 \<le> k")
    case True
    then have ex: "\<exists>k::int. 1 \<le> k \<and> Number (optional p) = Fin (of_int k)"
      using k by blast
    have vp: "validPage p = Number (optional p)"
      using True by (simp add: validPage_def r k)
    show ?thesis by (simp only: vp if_P [OF ex])
  next
    case False
    then have ne: "\<not> (\<exists>j::int. 1 \<le> j \<and> Number (optional p) = Fin (of_int j))"
      using k by simp
    have vp: "validPage p = Fin 1"
      using False by (auto simp: validPage_def r)
    show ?thesis by (simp only: vp if_not_P [OF ne])
  qed
next
  case False
  then have ne: "\<not> (\<exists>k::int. 1 \<le> k \<and> Number (optional p) = Fin (of_int k))"
    by (auto simp: isInteger_iff)
  have vp: "validPage p = Fin 1"
    using False by (simp add: validPage_def resolveNumber_def)
  show ?thesis by (simp only: vp if_not_P [OF ne])
qed

lemma validPage_int: "\<exists>v::int. 1 \<le> v \<and> validPage p = Fin (of_int v)"
proof (cases "\<exists>k::int. 1 \<le> k \<and> Number (optional p) = Fin (of_int k)")
  case True
  then have "validPage p = Number (optional p)"
    by (simp only: validPage_spec if_P)
  then show ?thesis using True by auto
next
  case False
  then have "validPage p = Fin (of_int 1)"
    by (simp only: validPage_spec if_not_P if_False of_int_1)
  then show ?thesis by (intro exI [of _ 1]) simp
qed

lemma exact_page_arithmetic:
  fixes v size :: int
  assumes v: "1 \<le> v" and size: "size = 10 \<or> size = 20 \<or> size = 50"
    and small: "size * (v - 1) < 2 ^ 53"
  shows "jsMul (Fin (of_int size)) (jsSub (Fin (of_int v)) (Fin 1)) = Fin (of_int (size * (v - 1)))"
    and "jsAdd (jsDiv (Fin (of_int (size * (v - 1)))) (Fin (of_int size))) (Fin 1) = Fin (of_int v)"
proof -
  have n0: "0 \<le> v - 1"
    using v by simp
  have sz: "10 \<le> size"
    using size by presburger
  have "10 * (v - 1) \<le> size * (v - 1)"
    using sz n0 by (rule mult_right_mono)
  then have ten: "10 * (v - 1) < 9007199254740992"
    using small by simp
  have n1: "v - 1 < 2 ^ 53"
    using ten n0 by simp
  have p0: "0 \<le> size * (v - 1)"
    using sz n0 by simp
  have v0: "0 \<le> v"
    using v by simp
  have v1: "v < 2 ^ 53"
    using ten n0 by simp
  have sub: "jsSub (Fin (of_int v)) (Fin 1) = Fin (of_int (v - 1))"
    using rnd_int_exact [OF n0 n1] by (simp add: jsSub_def)
  have "jsMul (Fin (of_int size)) (Fin (of_int (v - 1))) = rnd (of_int (size * (v - 1)))"
    by simp
  then show "jsMul (Fin (of_int size)) (jsSub (Fin (of_int v)) (Fin 1)) = Fin (of_int (size * (v - 1)))"
    unfolding sub using rnd_int_exact [OF p0 small] by (simp only:)
  have nz: "(of_int size :: rat) \<noteq> 0"
    using sz by simp
  then have q: "(of_int (size * (v - 1)) :: rat) / of_int size = of_int (v - 1)"
    by simp
  have "jsDiv (Fin (of_int (size * (v - 1)))) (Fin (of_int size)) = rnd (of_int (v - 1))"
    unfolding jsDiv.simps q [symmetric] using nz by (simp only: if_False)
  then have div: "jsDiv (Fin (of_int (size * (v - 1)))) (Fin (of_int size)) = Fin (of_int (v - 1))"
    using rnd_int_exact [OF n0 n1] by (simp only:)
  have "jsAdd (Fin (of_int (v - 1))) (Fin 1) = rnd (of_int v)"
    by simp
  then show "jsAdd (jsDiv (Fin (of_int (size * (v - 1)))) (Fin (of_int size))) (Fin 1) = Fin (of_int v)"
    unfolding div using rnd_int_exact [OF v0 v1] by (simp only:)
qed

lemma pageSize_int:
  assumes "resolvePageSize p = Inr ps"
  shows "\<exists>size::int. (size = 10 \<or> size = 20 \<or> size = 50) \<and> ps = Fin (of_int size)"
proof -
  consider "ps = Fin (of_int 10)" | "ps = Fin (of_int 20)" | "ps = Fin (of_int 50)"
    using resolvePageSize_cases [OF assms] by auto
  then show ?thesis
  proof cases
    case 1
    then show ?thesis by (intro exI [of _ 10]) simp
  next
    case 2
    then show ?thesis by (intro exI [of _ 20]) simp
  next
    case 3
    then show ?thesis by (intro exI [of _ 50]) simp
  qed
qed

lemma Number_2_pow_53: "StringToNumber ''9007199254740992'' = Fin 9007199254740992"
  by code_simp

lemma Number_3: "StringToNumber ''3'' = Fin 3"
  by code_simp

lemma huge_page_result:
  "AppController_getPokemons memPrisma (noQuery\<lparr>q_page := Some ''9007199254740992''\<rparr>) store1 =
     Inr \<lparr>r_pokemons = [], r_page = Fin 9007199254740991\<rparr>"
  by code_simp

lemma huge_page_params:
  "constructParams (noQuery\<lparr>q_page := Some ''9007199254740992''\<rparr>) =
     Inr \<lparr>p_where = Some (resolveWhere (noQuery\<lparr>q_page := Some ''9007199254740992''\<rparr>)),
          p_orderBy = None, p_skip = Some (Fin 90071992547409904), p_take = Some (Fin 10)\<rparr>"
  by code_simp

lemma page3_params:
  "constructParams (noQuery\<lparr>q_page := Some ''3'', q_pageSize := Some ''20''\<rparr>) =
     Inr \<lparr>p_where = Some (resolveWhere (noQuery\<lparr>q_page := Some ''3'', q_pageSize := Some ''20''\<rparr>)),
          p_orderBy = None, p_skip = Some (Fin 40), p_take = Some (Fin 20)\<rparr>"
  by code_simp

lemma page3_found:
  "pokemon_findMany memPrisma
     \<lparr>p_where = Some (resolveWhere (noQuery\<lparr>q_page := Some ''3'', q_pageSize := Some ''20''\<rparr>)),
      p_orderBy = None, p_skip = Some (Fin 40), p_take = Some (Fin 20)\<rparr> store1 = Inr []"
  by code_simp

section \<open>The claims\<close>

text \<open>
  C1 (the code departs from it). The claim: for \<open>orderBy\<close> one of \<open>name\<close>, \<open>height\<close>,
  \<open>weight\<close>, \<open>resolveOrderBy\<close> sorts on that same field. In the code all three cases of
  the switch return \<open>{ name: orderDirValue }\<close>: a query ordered by \<open>height\<close>, or by
  \<open>weight\<close>, is sorted by name.
\<close>

theorem resolveOrderBy_height_weight_by_name:
  "resolveOrderBy (noQuery\<lparr>q_orderBy := Some ''height''\<rparr>) = Some (KeyName, Asc) \<and>
   resolveOrderBy (noQuery\<lparr>q_orderBy := Some ''weight'', q_orderDir := Some ''desc''\<rparr>) =
     Some (KeyName, Desc)"
  by (simp add: resolveOrderBy_def noQuery_def parseOrderDir_def)

text \<open>
  C2 (as amended). For every payload on which the coercion of the height and of the
  weight does not throw, \<open>validateData\<close> returns: \<open>null\<close> exactly when the name is truthy
  (not absent, \<open>null\<close>, \<open>false\<close>, 0, NaN or the empty string), the image is truthy, and
  \<open>Number\<close> coerces the height and the weight to non-negative integers; otherwise a
  non-empty list that holds, once each and nothing else, the message of every invalid
  field among name, height, weight and image. For a name or an image of the declared
  type, a string or absent, truthy means a non-empty string.
\<close>

theorem validateData_collects:
  "(validateData d = Inr None \<longleftrightarrow>
      d_name d \<notin> {Prim JUndefined, Prim JNull, Prim (JBool False), Prim (JNumber (Fin 0)),
                  Prim (JNumber NaN), Prim (JString [])} \<and>
      d_image d \<notin> {Prim JUndefined, Prim JNull, Prim (JBool False), Prim (JNumber (Fin 0)),
                   Prim (JNumber NaN), Prim (JString [])} \<and>
      (\<exists>k::int. 0 \<le> k \<and> Number_value (d_height d) = Inr (Fin (of_int k))) \<and>
      (\<exists>k::int. 0 \<le> k \<and> Number_value (d_weight d) = Inr (Fin (of_int k)))) \<and>
   (\<forall>es. validateData d = Inr (Some es) \<longrightarrow>
      es \<noteq> [] \<and> distinct es \<and>
      set es \<subseteq> {''Invalid name'', ''Invalid height'', ''Invalid weight'', ''Invalid image url''} \<and>
      (''Invalid name'' \<in> set es \<longleftrightarrow>
         d_name d \<in> {Prim JUndefined, Prim JNull, Prim (JBool False), Prim (JNumber (Fin 0)),
                    Prim (JNumber NaN), Prim (JString [])}) \<and>
      (''Invalid height'' \<in> set es \<longleftrightarrow>
         \<not> (\<exists>k::int. 0 \<le> k \<and> Number_value (d_height d) = Inr (Fin (of_int k)))) \<and>
      (''Invalid weight'' \<in> set es \<longleftrightarrow>
         \<not> (\<exists>k::int. 0 \<le> k \<and> Number_value (d_weight d) = Inr (Fin (of_int k)))) \<and>
      (''Invalid image url'' \<in> set es \<longleftrightarrow>
         d_image d \<in> {Prim JUndefined, Prim JNull, Prim (JBool False), Prim (JNumber (Fin 0)),
                     Prim (JNumber NaN), Prim (JString [])})) \<and>
   ((\<exists>r. validateData d = Inr r) \<longleftrightarrow>
      (\<exists>h. Number_value (d_height d) = Inr h) \<and> (\<exists>w. Number_value (d_weight d) = Inr w)) \<and>
   (d_name d = Prim JUndefined \<or> (\<exists>s. d_name d = Prim (JString s)) \<longrightarrow>
      (d_name d \<notin> {Prim JUndefined, Prim JNull, Prim (JBool False), Prim (JNumber (Fin 0)),
                   Prim (JNumber NaN), Prim (JString [])} \<longleftrightarrow>
       (\<exists>s. d_name d = Prim (JString s) \<and> s \<noteq> []))) \<and>
   (d_image d = Prim JUndefined \<or> (\<exists>s. d_image d = Prim (JString s)) \<longrightarrow>
      (d_image d \<notin> {Prim JUndefined, Prim JNull, Prim (JBool False), Prim (JNumber (Fin 0)),
                    Prim (JNumber NaN), Prim (JString [])} \<longleftrightarrow>
       (\<exists>s. d_image d = Prim (JString s) \<and> s \<noteq> [])))"
proof -
  let ?falsy = "{Prim JUndefined, Prim JNull, Prim (JBool False), Prim (JNumber (Fin 0)),
                 Prim (JNumber NaN), Prim (JString [])}"
  define N where "N \<longleftrightarrow> d_name d \<notin> ?falsy"
  define I where "I \<longleftrightarrow> d_image d \<notin> ?falsy"
  define H where "H \<longleftrightarrow> (\<exists>k::int. 0 \<le> k \<and> Number_value (d_height d) = Inr (Fin (of_int k)))"
  define W where "W \<longleftrightarrow> (\<exists>k::int. 0 \<le> k \<and> Number_value (d_weight d) = Inr (Fin (of_int k)))"
  define ES where
    "ES = (if N then [] else [''Invalid name'']) @ (if H then [] else [''Invalid height'']) @
          (if W then [] else [''Invalid weight'']) @ (if I then [] else [''Invalid image url''])"
  note facts = messages_collected [of N H W I, folded ES_def]
  have decl: "\<And>v. v = Prim JUndefined \<or> (\<exists>s. v = Prim (JString s)) \<longrightarrow>
                (v \<notin> ?falsy \<longleftrightarrow> (\<exists>s. v = Prim (JString s) \<and> s \<noteq> []))"
    by auto
  have throws: "(\<exists>r. validateData d = Inr r) \<longleftrightarrow>
      (\<exists>h. Number_value (d_height d) = Inr h) \<and> (\<exists>w. Number_value (d_weight d) = Inr w)"
    unfolding validateData_eq by (auto split: sum.splits)
  have main: "(validateData d = Inr None \<longleftrightarrow> N \<and> I \<and> H \<and> W) \<and>
   (\<forall>es. validateData d = Inr (Some es) \<longrightarrow>
      es \<noteq> [] \<and> distinct es \<and>
      set es \<subseteq> {''Invalid name'', ''Invalid height'', ''Invalid weight'', ''Invalid image url''} \<and>
      (''Invalid name'' \<in> set es \<longleftrightarrow> \<not> N) \<and>
      (''Invalid height'' \<in> set es \<longleftrightarrow> \<not> H) \<and>
      (''Invalid weight'' \<in> set es \<longleftrightarrow> \<not> W) \<and>
      (''Invalid image url'' \<in> set es \<longleftrightarrow> \<not> I))"
  proof (cases "Number_value (d_height d)")
    case (Inl e)
    then have "\<not> H" "\<forall>r. validateData d \<noteq> Inr r"
      unfolding validateData_eq H_def by simp_all
    then show ?thesis by simp
  next
    case h: (Inr h)
    show ?thesis
    proof (cases "Number_value (d_weight d)")
      case (Inl e)
      then have "\<not> W" "\<forall>r. validateData d \<noteq> Inr r"
        unfolding validateData_eq W_def using h by simp_all
      then show ?thesis by simp
    next
      case w: (Inr w)
      have hh: "(\<not> isInteger h \<or> jsLess h (Fin 0)) \<longleftrightarrow> \<not> H"
        unfolding H_def using nonNegative_coercion_iff [OF h] .
      have ww: "(\<not> isInteger w \<or> jsLess w (Fin 0)) \<longleftrightarrow> \<not> W"
        unfolding W_def using nonNegative_coercion_iff [OF w] .
      have tn: "truthy (d_name d) \<longleftrightarrow> N" and ti: "truthy (d_image d) \<longleftrightarrow> I"
        unfolding N_def I_def by (rule truthy_iff)+
      have v: "validateData d = Inr (if ES = [] then None else Some ES)"
        unfolding validateData_eq [of d] h w sum.case hh ww tn ti Let_def ES_def
        by simp
      have none: "validateData d = Inr None \<longleftrightarrow> ES = []"
        unfolding v by simp
      have some: "\<And>es. validateData d = Inr (Some es) \<longleftrightarrow> ES \<noteq> [] \<and> es = ES"
        unfolding v by auto
      show ?thesis
        unfolding none some using facts by auto
    qed
  qed
  show ?thesis
    using main [unfolded N_def I_def H_def W_def not_not] throws
      decl [of "d_name d"] decl [of "d_image d"]
    by (intro conjI) (elim conjE, assumption)+
qed

theorem validateData_collects_witness:
  "validateData goodData = Inr None \<and>
   validateData badData =
     Inr (Some [''Invalid name'', ''Invalid height'', ''Invalid weight'', ''Invalid image url'']) \<and>
   validateData emptyArrayName = Inr None"
proof -
  have a: "validateData badData =
     Inr (Some [''Invalid name'', ''Invalid height'', ''Invalid weight'', ''Invalid image url''])"
    by code_simp
  have c: "Number_value (d_height goodData) = Inr (Fin (of_int 3))"
    "Number_value (d_weight goodData) = Inr (Fin (of_int 65))"
    by code_simp+
  have good: "validateData goodData = Inr None"
    using validateData_collects [of goodData] c
    by (auto simp: goodData_def)
  have e: "Number_value (d_height emptyArrayName) = Inr (Fin (of_int 3))"
    "Number_value (d_weight emptyArrayName) = Inr (Fin (of_int 65))"
    by code_simp+
  have arr: "validateData emptyArrayName = Inr None"
    using validateData_collects [of emptyArrayName] e
    by (auto simp: emptyArrayName_def)
  have "distinct [''Invalid name'', ''Invalid height'', ''Invalid weight'', ''Invalid image url'']"
    using validateData_collects [of badData] a by blast
  then show ?thesis using good arr a by simp
qed

text \<open>
  C2 as stated fails. The body \<open>{"name": [], "height": 3, "weight": "65", "image": {}}\<close>
  passes validation although its name is not a non-empty string: \<open>[]\<close> is truthy, its
  string is empty, and the record is stored with the empty name. And for the height
  \<open>{"toString": 1}\<close> the coercion throws: \<open>validateData\<close> returns neither \<open>null\<close> nor a list.
\<close>

theorem validateData_counterexample:
  "validateData emptyArrayName = Inr None \<and>
   String_value (d_name emptyArrayName) = Inr [] \<and>
   AppController_createPokemon memPrisma emptyArrayName store1 =
     (Inr \<lparr>pk_id = 2, pk_name = [], pk_height = 3, pk_weight = 65,
           pk_image = ''[object Object]''\<rparr>,
      \<lparr>rows = [pikachu, \<lparr>pk_id = 2, pk_name = [], pk_height = 3, pk_weight = 65,
                         pk_image = ''[object Object]''\<rparr>],
       nextId = 3\<rparr>) \<and>
   validateData throwingHeight = Inl (TypeError ''Cannot convert object to primitive value'')"
  by (intro conjI; code_simp)



text \<open>
  C4 (as amended). For a query with a valid page size, \<open>take\<close> is the page size and
  \<open>skip\<close> is \<open>pageSize * (page - 1)\<close> computed on JavaScript numbers, where \<open>page\<close> is
  the parsed page number, an integer at least 1, normalized to 1 when it is absent, not
  an integer or less than 1. Whenever the exact product \<open>pageSize * (page - 1)\<close> is below
  \<open>2^53\<close>, \<open>skip\<close> is exactly that product and the page that the list operation
  returns (\<open>skip / take + 1\<close>) is the normalized page, provided the storage client
  returns.
\<close>

theorem pagination_exact_below_2_pow_53:
  fixes prisma :: "'s PrismaService"
  assumes "resolvePageSize (q_pageSize q) = Inr ps"
  shows "\<exists>(v::int) (size::int) params.
           validPage (q_page q) =
             (if \<exists>k::int. 1 \<le> k \<and> Number (optional (q_page q)) = Fin (of_int k)
              then Number (optional (q_page q)) else Fin 1) \<and>
           validPage (q_page q) = Fin (of_int v) \<and> 1 \<le> v \<and> ps = Fin (of_int size) \<and>
           constructParams q = Inr params \<and>
           p_take params = Some ps \<and>
           p_skip params = Some (jsMul ps (jsSub (validPage (q_page q)) (Fin 1))) \<and>
           (size * (v - 1) < 2 ^ 53 \<longrightarrow>
              p_skip params = Some (Fin (of_int (size * (v - 1)))) \<and>
              (\<forall>found. pokemon_findMany prisma params s = Inr found \<longrightarrow>
                 AppController_getPokemons prisma q s =
                   Inr \<lparr>r_pokemons = found, r_page = validPage (q_page q)\<rparr>))"
proof -
  obtain v :: int where v: "1 \<le> v" "validPage (q_page q) = Fin (of_int v)"
    using validPage_int by blast
  obtain size :: int where size: "size = 10 \<or> size = 20 \<or> size = 50" "ps = Fin (of_int size)"
    using pageSize_int [OF assms] by blast
  define params where
    "params = \<lparr>p_where = Some (resolveWhere q), p_orderBy = resolveOrderBy q,
               p_skip = Some (jsMul ps (jsSub (validPage (q_page q)) (Fin 1))),
               p_take = Some ps\<rparr>"
  have cp: "constructParams q = Inr params"
    by (simp add: constructParams_eq assms params_def)
  have sel: "p_take params = Some ps"
    "p_skip params = Some (jsMul ps (jsSub (validPage (q_page q)) (Fin 1)))"
    by (simp_all add: params_def)
  have exact: "size * (v - 1) < 2 ^ 53 \<longrightarrow>
              p_skip params = Some (Fin (of_int (size * (v - 1)))) \<and>
              (\<forall>found. pokemon_findMany prisma params s = Inr found \<longrightarrow>
                 AppController_getPokemons prisma q s =
                   Inr \<lparr>r_pokemons = found, r_page = validPage (q_page q)\<rparr>)"
  proof
    assume small: "size * (v - 1) < 2 ^ 53"
    have sk: "p_skip params = Some (Fin (of_int (size * (v - 1))))"
      unfolding sel v(2) size(2)
      using exact_page_arithmetic(1) [OF v(1) size(1) small] by simp
    have pg: "jsAdd (jsDiv (operand (p_skip params)) (operand (p_take params))) (Fin 1) =
                validPage (q_page q)"
      unfolding sk unfolding sel v(2) size(2)
      using exact_page_arithmetic(2) [OF v(1) size(1) small] by simp
    have "\<forall>found. pokemon_findMany prisma params s = Inr found \<longrightarrow>
                 AppController_getPokemons prisma q s =
                   Inr \<lparr>r_pokemons = found, r_page = validPage (q_page q)\<rparr>"
      by (simp add: AppController_getPokemons_def cp getPokemons_def pg)
    then show "p_skip params = Some (Fin (of_int (size * (v - 1)))) \<and>
              (\<forall>found. pokemon_findMany prisma params s = Inr found \<longrightarrow>
                 AppController_getPokemons prisma q s =
                   Inr \<lparr>r_pokemons = found, r_page = validPage (q_page q)\<rparr>)"
      using sk by blast
  qed
  show ?thesis
    using validPage_spec [of "q_page q"] v size(2) cp sel exact by blast
qed

theorem pagination_exact_below_2_pow_53_witness:
  "constructParams (noQuery\<lparr>q_page := Some ''3'', q_pageSize := Some ''20''\<rparr>) =
     Inr \<lparr>p_where = Some (resolveWhere (noQuery\<lparr>q_page := Some ''3'', q_pageSize := Some ''20''\<rparr>)),
          p_orderBy = None, p_skip = Some (Fin 40), p_take = Some (Fin 20)\<rparr> \<and>
   AppController_getPokemons memPrisma (noQuery\<lparr>q_page := Some ''3'', q_pageSize := Some ''20''\<rparr>)
     store1 = Inr \<lparr>r_pokemons = [], r_page = Fin 3\<rparr>"
proof -
  let ?q = "noQuery\<lparr>q_page := Some ''3'', q_pageSize := Some ''20''\<rparr>"
  let ?P = "\<lparr>p_where = Some (resolveWhere ?q), p_orderBy = None, p_skip = Some (Fin 40),
            p_take = Some (Fin 20)\<rparr>"
  have ps: "resolvePageSize (q_pageSize ?q) = Inr (Fin 20)"
    by (simp add: resolvePageSize_def)
  have vp: "validPage (q_page ?q) = Fin 3"
    by (simp add: validPage_def resolveNumber_def Number_3)
  obtain v size :: int and params where
    w: "validPage (q_page ?q) = Fin (of_int v)" "Fin 20 = Fin (of_int size)"
      "constructParams ?q = Inr params"
      "size * (v - 1) < 2 ^ 53 \<longrightarrow>
         (\<forall>found. pokemon_findMany memPrisma params store1 = Inr found \<longrightarrow>
            AppController_getPokemons memPrisma ?q store1 =
              Inr \<lparr>r_pokemons = found, r_page = validPage (q_page ?q)\<rparr>)"
    using pagination_exact_below_2_pow_53 [OF ps, of memPrisma store1] by blast
  have v3: "v = 3"
    using w(1) unfolding vp by simp
  have s20: "size = 20"
    using w(2) by simp
  have params: "params = ?P"
    using w(3) unfolding page3_params by simp
  have small: "size * (v - 1) < 2 ^ 53"
    unfolding v3 s20 by simp
  have "AppController_getPokemons memPrisma ?q store1 =
          Inr \<lparr>r_pokemons = [], r_page = validPage (q_page ?q)\<rparr>"
    using w(4) small page3_found unfolding params by blast
  then show ?thesis
    unfolding vp using page3_params by simp
qed

text \<open>
  C4 as stated, without the bound, fails: with \<open>page=9007199254740992\<close> (\<open>2^53\<close>) and the
  default page size 10 the product \<open>10 * (2^53 - 1)\<close> is rounded to 90071992547409904,
  and the page returned is 9007199254740991, not the normalized page 9007199254740992.
\<close>

theorem pagination_counterexample:
  "resolvePageSize (q_pageSize (noQuery\<lparr>q_page := Some ''9007199254740992''\<rparr>)) = Inr (Fin 10) \<and>
   validPage (q_page (noQuery\<lparr>q_page := Some ''9007199254740992''\<rparr>)) = Fin 9007199254740992 \<and>
   constructParams (noQuery\<lparr>q_page := Some ''9007199254740992''\<rparr>) =
     Inr \<lparr>p_where = Some (resolveWhere (noQuery\<lparr>q_page := Some ''9007199254740992''\<rparr>)),
          p_orderBy = None, p_skip = Some (Fin 90071992547409904), p_take = Some (Fin 10)\<rparr> \<and>
   AppController_getPokemons memPrisma (noQuery\<lparr>q_page := Some ''9007199254740992''\<rparr>) store1 =
     Inr \<lparr>r_pokemons = [], r_page = Fin 9007199254740991\<rparr> \<and>
   Fin 9007199254740991 \<noteq> validPage (q_page (noQuery\<lparr>q_page := Some ''9007199254740992''\<rparr>))"
proof -
  have a: "resolvePageSize (q_pageSize (noQuery\<lparr>q_page := Some ''9007199254740992''\<rparr>)) = Inr (Fin 10)"
    by (simp add: noQuery_def resolvePageSize_def)
  have b: "validPage (q_page (noQuery\<lparr>q_page := Some ''9007199254740992''\<rparr>)) = Fin 9007199254740992"
    by (simp add: validPage_def resolveNumber_def Number_2_pow_53)
  show ?thesis
    using a b huge_page_params huge_page_result by simp
qed

text \<open>
  C5. The page size resolves exactly when the parameter is absent (to 10) or is one of
  the strings \<open>10\<close>, \<open>20\<close>, \<open>50\<close> (to that number). For every other value
  \<open>resolvePageSize\<close> fails with the bad-request error, and so does the list request,
  whatever the storage client is: the client is not consulted.
\<close>

theorem resolvePageSize_strict:
  fixes prisma :: "'s PrismaService"
  shows
  "(resolvePageSize pageSize = Inr n \<longleftrightarrow>
      (pageSize = None \<and> n = Fin 10) \<or> (pageSize = Some ''10'' \<and> n = Fin 10) \<or>
      (pageSize = Some ''20'' \<and> n = Fin 20) \<or> (pageSize = Some ''50'' \<and> n = Fin 50)) \<and>
   (pageSize \<notin> {None, Some ''10'', Some ''20'', Some ''50''} \<longrightarrow>
      resolvePageSize pageSize =
        Inl (BadRequestException (Message ''Invalid page size. Valid sizes: 10, 20, 50'')) \<and>
      (q_pageSize q = pageSize \<longrightarrow>
         AppController_getPokemons prisma q s =
           Inl (BadRequestException (Message ''Invalid page size. Valid sizes: 10, 20, 50''))))"
  by (auto simp: resolvePageSize_def AppController_getPokemons_def constructParams_def
        resolvePage_def Let_def)

theorem resolvePageSize_strict_witness:
  "resolvePageSize (Some ''20'') = Inr (Fin 20) \<and>
   resolvePageSize (Some ''7'') =
     Inl (BadRequestException (Message ''Invalid page size. Valid sizes: 10, 20, 50'')) \<and>
   AppController_getPokemons downPrisma (noQuery\<lparr>q_pageSize := Some ''7''\<rparr>) store1 =
     Inl (BadRequestException (Message ''Invalid page size. Valid sizes: 10, 20, 50''))"
  using resolvePageSize_strict [of "Some ''20''" "Fin 20" "noQuery\<lparr>q_pageSize := Some ''7''\<rparr>" downPrisma store1]
    resolvePageSize_strict [of "Some ''7''" "Fin 10" "noQuery\<lparr>q_pageSize := Some ''7''\<rparr>" downPrisma store1]
  by simp

text \<open>
  C6. Each of the four range bounds is translated on its own: a parameter whose value
  is coerced by \<open>Number\<close> to an integer \<open>k\<close> becomes the inclusive bound \<open>k\<close>
  (\<open>gte\<close>, \<open>lte\<close>), and one that is not (\<open>abc\<close>, \<open>5.5\<close>, or absent) becomes an absent
  bound. No bound makes the query fail: with a valid page size \<open>constructParams\<close>
  returns parameters, whose filter is the translated one.
\<close>

theorem lenient_bounds:
  "((\<forall>k::int. Number (optional (q_heightGte q)) = Fin (of_int k) \<longrightarrow>
        gte (w_height (resolveWhere q)) = Some (Fin (of_int k))) \<and>
    ((\<nexists>k::int. Number (optional (q_heightGte q)) = Fin (of_int k)) \<longrightarrow>
        gte (w_height (resolveWhere q)) = None)) \<and>
   ((\<forall>k::int. Number (optional (q_heightLeq q)) = Fin (of_int k) \<longrightarrow>
        lte (w_height (resolveWhere q)) = Some (Fin (of_int k))) \<and>
    ((\<nexists>k::int. Number (optional (q_heightLeq q)) = Fin (of_int k)) \<longrightarrow>
        lte (w_height (resolveWhere q)) = None)) \<and>
   ((\<forall>k::int. Number (optional (q_weightGte q)) = Fin (of_int k) \<longrightarrow>
        gte (w_weight (resolveWhere q)) = Some (Fin (of_int k))) \<and>
    ((\<nexists>k::int. Number (optional (q_weightGte q)) = Fin (of_int k)) \<longrightarrow>
        gte (w_weight (resolveWhere q)) = None)) \<and>
   ((\<forall>k::int. Number (optional (q_weightLeq q)) = Fin (of_int k) \<longrightarrow>
        lte (w_weight (resolveWhere q)) = Some (Fin (of_int k))) \<and>
    ((\<nexists>k::int. Number (optional (q_weightLeq q)) = Fin (of_int k)) \<longrightarrow>
        lte (w_weight (resolveWhere q)) = None)) \<and>
   (\<forall>ps. resolvePageSize (q_pageSize q) = Inr ps \<longrightarrow>
      (\<exists>params. constructParams q = Inr params \<and> p_where params = Some (resolveWhere q)))"
proof -
  have bound: "\<And>p. (\<forall>k::int. Number (optional p) = Fin (of_int k) \<longrightarrow>
                    resolveNumber p = Some (Fin (of_int k))) \<and>
               ((\<nexists>k::int. Number (optional p) = Fin (of_int k)) \<longrightarrow> resolveNumber p = None)"
    using resolveNumber_Some resolveNumber_None by blast
  have sel: "gte (w_height (resolveWhere q)) = resolveNumber (q_heightGte q)"
    "lte (w_height (resolveWhere q)) = resolveNumber (q_heightLeq q)"
    "gte (w_weight (resolveWhere q)) = resolveNumber (q_weightGte q)"
    "lte (w_weight (resolveWhere q)) = resolveNumber (q_weightLeq q)"
    by (simp_all add: resolveWhere_def)
  have ok: "\<forall>ps. resolvePageSize (q_pageSize q) = Inr ps \<longrightarrow>
      (\<exists>params. constructParams q = Inr params \<and> p_where params = Some (resolveWhere q))"
    by (simp add: constructParams_eq)
  show ?thesis
    unfolding sel using bound ok by blast
qed

theorem lenient_bounds_witness:
  "gte (w_height (resolveWhere (noQuery\<lparr>q_heightGte := Some ''abc'', q_heightLeq := Some ''12'',
      q_weightGte := Some ''5.5''\<rparr>))) = None \<and>
   lte (w_height (resolveWhere (noQuery\<lparr>q_heightGte := Some ''abc'', q_heightLeq := Some ''12'',
      q_weightGte := Some ''5.5''\<rparr>))) = Some (Fin 12) \<and>
   gte (w_weight (resolveWhere (noQuery\<lparr>q_heightGte := Some ''abc'', q_heightLeq := Some ''12'',
      q_weightGte := Some ''5.5''\<rparr>))) = None \<and>
   lte (w_weight (resolveWhere (noQuery\<lparr>q_heightGte := Some ''abc'', q_heightLeq := Some ''12'',
      q_weightGte := Some ''5.5''\<rparr>))) = None \<and>
   (\<exists>params. constructParams (noQuery\<lparr>q_heightGte := Some ''abc'', q_heightLeq := Some ''12'',
      q_weightGte := Some ''5.5''\<rparr>) = Inr params)"
proof -
  let ?q = "noQuery\<lparr>q_heightGte := Some ''abc'', q_heightLeq := Some ''12'',
      q_weightGte := Some ''5.5''\<rparr>"
  have a: "\<nexists>k::int. Number (optional (q_heightGte ?q)) = Fin (of_int k)"
    by (simp add: Number_abc)
  have b: "Number (optional (q_heightLeq ?q)) = Fin (of_int 12)"
    by (simp add: Number_12)
  have "\<not> isInteger (Fin (11 / 2))"
    by code_simp
  then have c: "\<nexists>k::int. Number (optional (q_weightGte ?q)) = Fin (of_int k)"
    by (simp add: Number_5_5 isInteger_iff)
  have d: "\<nexists>k::int. Number (optional (q_weightLeq ?q)) = Fin (of_int k)"
    by (simp add: noQuery_def)
  have e: "resolvePageSize (q_pageSize ?q) = Inr (Fin 10)"
    by (simp add: noQuery_def resolvePageSize_def)
  show ?thesis
    using lenient_bounds [of ?q] a b c d e by auto
qed

text \<open>
  C7. \<open>validateId\<close> returns \<open>null\<close> exactly when the id is a non-negative integer and
  the lookup in storage finds a record with it. When the id is not an integer, is
  negative, or the lookup finds no record, it returns \<open>Invalid id\<close>; a delete request,
  and an update request whose payload is valid, then end with that error.
\<close>

theorem validateId_iff:
  fixes prisma :: "'s PrismaService"
  shows
  "(validateId prisma n s = Inr None \<longleftrightarrow>
      (\<exists>k::int. 0 \<le> k \<and> n = Fin (of_int k)) \<and>
      (\<exists>p. pokemon_findUnique prisma n s = Inr (Some p))) \<and>
   ((\<nexists>k::int. 0 \<le> k \<and> n = Fin (of_int k)) \<or> pokemon_findUnique prisma n s = Inr None \<longrightarrow>
      validateId prisma n s = Inr (Some ''Invalid id'')) \<and>
   (validateId prisma (Number (JString id')) s = Inr (Some ''Invalid id'') \<longrightarrow>
      AppController_deletePokemon prisma id' s =
        (Inl (BadRequestException (Message ''Invalid id'')), s) \<and>
      (validateData d = Inr None \<longrightarrow>
         AppController_publishPokemon prisma id' d s =
           (Inl (BadRequestException (Message ''Invalid id'')), s)))"
proof -
  have g: "isInteger n \<and> jsGreaterEq n (Fin 0) \<longleftrightarrow> (\<exists>k::int. 0 \<le> k \<and> n = Fin (of_int k))"
    by (cases n) (auto simp: isInteger_iff)
  show ?thesis
    unfolding validateId_def g getPokemon_def
    by (auto simp: AppController_deletePokemon_def AppController_publishPokemon_def
          validateId_def g getPokemon_def split: sum.splits option.splits)
qed

theorem validateId_iff_witness:
  "validateId memPrisma (Number (JString ''1'')) store1 = Inr None \<and>
   validateId memPrisma (Number (JString ''7'')) store1 = Inr (Some ''Invalid id'') \<and>
   validateId memPrisma (Number (JString ''-1'')) store1 = Inr (Some ''Invalid id'') \<and>
   validateId memPrisma (Number (JString ''abc'')) store1 = Inr (Some ''Invalid id'') \<and>
   AppController_deletePokemon memPrisma ''-1'' store1 =
     (Inl (BadRequestException (Message ''Invalid id'')), store1) \<and>
   AppController_publishPokemon memPrisma ''abc'' goodData store1 =
     (Inl (BadRequestException (Message ''Invalid id'')), store1)"
proof -
  have one: "\<exists>k::int. 0 \<le> k \<and> Fin 1 = Fin (of_int k)"
    by (rule exI [of _ 1]) simp
  have neg: "\<nexists>k::int. 0 \<le> k \<and> Fin (- 1) = Fin (of_int k)"
    by auto
  have nan: "\<nexists>k::int. 0 \<le> k \<and> NaN = Fin (of_int k)"
    by simp
  have a: "validateId memPrisma (Fin 1) store1 = Inr None"
    using validateId_iff [of memPrisma "Fin 1" store1] one findUnique_1 by simp
  have b: "validateId memPrisma (Fin 7) store1 = Inr (Some ''Invalid id'')"
    using validateId_iff [of memPrisma "Fin 7" store1] findUnique_7 by simp
  have c: "validateId memPrisma (Fin (- 1)) store1 = Inr (Some ''Invalid id'')"
    using validateId_iff [of memPrisma "Fin (- 1)" store1] neg by blast
  have d: "validateId memPrisma NaN store1 = Inr (Some ''Invalid id'')"
    using validateId_iff [of memPrisma NaN store1] nan by blast
  have e: "AppController_deletePokemon memPrisma ''-1'' store1 =
     (Inl (BadRequestException (Message ''Invalid id'')), store1)"
    using validateId_iff [of memPrisma "Fin (- 1)" store1 "''-1''"] c by (simp add: Number_minus_1)
  have f: "AppController_publishPokemon memPrisma ''abc'' goodData store1 =
     (Inl (BadRequestException (Message ''Invalid id'')), store1)"
    using validateId_iff [of memPrisma NaN store1 "''abc''" goodData] d validateData_goodData
    by (simp add: Number_abc)
  show ?thesis
    using a b c d e f by (simp add: Number_1 Number_7 Number_minus_1 Number_abc)
qed



text \<open>
  C9. A height or weight bound that is present and equal to the empty string becomes
  the inclusive bound 0 on that side, not an absent bound: \<open>Number('')\<close> is 0, an integer.
\<close>

theorem empty_bound_is_zero:
  "(q_heightGte q = Some [] \<longrightarrow> gte (w_height (resolveWhere q)) = Some (Fin 0)) \<and>
   (q_heightLeq q = Some [] \<longrightarrow> lte (w_height (resolveWhere q)) = Some (Fin 0)) \<and>
   (q_weightGte q = Some [] \<longrightarrow> gte (w_weight (resolveWhere q)) = Some (Fin 0)) \<and>
   (q_weightLeq q = Some [] \<longrightarrow> lte (w_weight (resolveWhere q)) = Some (Fin 0))"
  by (simp add: resolveWhere_def resolveNumber_def StringToNumber_empty)

theorem empty_bound_is_zero_witness:
  "gte (w_height (resolveWhere (noQuery\<lparr>q_heightGte := Some []\<rparr>))) = Some (Fin 0) \<and>
   lte (w_height (resolveWhere (noQuery\<lparr>q_heightGte := Some []\<rparr>))) = None"
  using empty_bound_is_zero [of "noQuery\<lparr>q_heightGte := Some []\<rparr>"]
  by (simp add: noQuery_def resolveWhere_def resolveNumber_def)

text \<open>
  C10. A page parameter that \<open>Number\<close> does not coerce to an integer (\<open>abc\<close>, \<open>2.5\<close>,
  or absent), and also the empty string (coerced to 0), is treated as page 1 and raises
  nothing: \<open>constructParams\<close> fails only as the page size makes it fail, otherwise
  skips nothing, and the list request returns page 1 whenever the storage client
  returns.
\<close>

theorem lenient_page:
  fixes prisma :: "'s PrismaService"
  assumes "(\<nexists>k::int. Number (optional (q_page q)) = Fin (of_int k)) \<or> q_page q = Some []"
  shows "validPage (q_page q) = Fin 1 \<and>
     constructParams q =
       (case resolvePageSize (q_pageSize q) of
          Inl e \<Rightarrow> Inl e
        | Inr ps \<Rightarrow>
            Inr \<lparr>p_where = Some (resolveWhere q), p_orderBy = resolveOrderBy q,
                 p_skip = Some (Fin 0), p_take = Some ps\<rparr>) \<and>
     (\<forall>params found. constructParams q = Inr params \<and>
         pokemon_findMany prisma params s = Inr found \<longrightarrow>
         AppController_getPokemons prisma q s = Inr \<lparr>r_pokemons = found, r_page = Fin 1\<rparr>)"
proof -
  have vp: "validPage (q_page q) = Fin 1"
    using assms
  proof
    assume "\<nexists>k::int. Number (optional (q_page q)) = Fin (of_int k)"
    then have "resolveNumber (q_page q) = None"
      by (simp add: resolveNumber_def isInteger_iff)
    then show ?thesis by (simp add: validPage_def)
  next
    assume "q_page q = Some []"
    then show ?thesis
      by (simp add: validPage_def resolveNumber_def StringToNumber_empty)
  qed
  have cp: "constructParams q =
       (case resolvePageSize (q_pageSize q) of
          Inl e \<Rightarrow> Inl e
        | Inr ps \<Rightarrow>
            Inr \<lparr>p_where = Some (resolveWhere q), p_orderBy = resolveOrderBy q,
                 p_skip = Some (Fin 0), p_take = Some ps\<rparr>)"
    unfolding constructParams_eq vp
    by (auto split: sum.splits dest!: resolvePageSize_cases simp: first_page_skip)
  have pg: "\<forall>params found. constructParams q = Inr params \<and>
         pokemon_findMany prisma params s = Inr found \<longrightarrow>
         AppController_getPokemons prisma q s = Inr \<lparr>r_pokemons = found, r_page = Fin 1\<rparr>"
    unfolding cp
    by (auto split: sum.splits dest!: resolvePageSize_cases
          simp: AppController_getPokemons_def cp getPokemons_def rnd_zero rnd_one)
  show ?thesis using vp cp pg by blast
qed

theorem lenient_page_witness:
  "validPage (Some ''2.5'') = Fin 1 \<and> validPage (Some []) = Fin 1 \<and>
   AppController_getPokemons memPrisma (noQuery\<lparr>q_page := Some ''2.5''\<rparr>) store1 =
     Inr \<lparr>r_pokemons = [pikachu], r_page = Fin 1\<rparr>"
proof -
  let ?q = "noQuery\<lparr>q_page := Some ''2.5''\<rparr>"
  let ?params = "\<lparr>p_where = Some (resolveWhere ?q), p_orderBy = resolveOrderBy ?q,
                 p_skip = Some (Fin 0), p_take = Some (Fin 10)\<rparr>"
  have "\<not> isInteger (Fin (5 / 2))"
    by code_simp
  then have a: "(\<nexists>k::int. Number (optional (q_page ?q)) = Fin (of_int k)) \<or> q_page ?q = Some []"
    by (simp add: Number_2_5 isInteger_iff)
  have b: "resolvePageSize (q_pageSize ?q) = Inr (Fin 10)"
    by (simp add: noQuery_def resolvePageSize_def)
  have c: "pokemon_findMany memPrisma ?params store1 = Inr [pikachu]"
    by code_simp
  have d: "validPage (Some []) = Fin 1"
    using lenient_page [of "noQuery\<lparr>q_page := Some []\<rparr>" memPrisma store1] by simp
  show ?thesis
    using lenient_page [OF a, of memPrisma store1] b c d by simp
qed

end
